theory Spec2Isabelle
  imports Complex_Main
begin

section \<open>Values, errors and arrays\<close>

text \<open>
  The module \<^verbatim>\<open>src/python/gp.py\<close> computes with NumPy arrays of double-precision
  numbers. A number is modelled by \<open>fl\<close>: a finite value is an exact real (rounding and
  overflow are outside the model, and so is the sign of zero), and the three special
  values that NumPy produces instead of raising are constructors of their own.
\<close>

datatype fl = Fin real | PInf | NInf | NaN

text \<open>
  The exceptions: those of Python and NumPy that the module can meet, and
  \<open>OptimizerError\<close> for whatever the optimizer raises. An exception ends the
  computation: the rest runs only on a value.
\<close>

datatype error = ValueError | IndexError | AttributeError | FloatingPointError | OptimizerError

fun err_bind :: "error + 'a \<Rightarrow> ('a \<Rightarrow> error + 'b) \<Rightarrow> error + 'b" where
  "err_bind (Inl e) f = Inl e"
| "err_bind (Inr v) f = f v"

fun fl_neg :: "fl \<Rightarrow> fl" where
  "fl_neg (Fin a) = Fin (- a)"
| "fl_neg PInf = NInf"
| "fl_neg NInf = PInf"
| "fl_neg NaN = NaN"

fun fl_add :: "fl \<Rightarrow> fl \<Rightarrow> fl" where
  "fl_add (Fin a) (Fin b) = Fin (a + b)"
| "fl_add (Fin a) PInf = PInf"
| "fl_add (Fin a) NInf = NInf"
| "fl_add PInf (Fin b) = PInf"
| "fl_add PInf PInf = PInf"
| "fl_add PInf NInf = NaN"
| "fl_add NInf (Fin b) = NInf"
| "fl_add NInf PInf = NaN"
| "fl_add NInf NInf = NInf"
| "fl_add NaN y = NaN"
| "fl_add x NaN = NaN"

definition fl_sub :: "fl \<Rightarrow> fl \<Rightarrow> fl" where
  "fl_sub x y = fl_add x (fl_neg y)"

fun fl_mul :: "fl \<Rightarrow> fl \<Rightarrow> fl" where
  "fl_mul (Fin a) (Fin b) = Fin (a * b)"
| "fl_mul (Fin a) PInf = (if 0 < a then PInf else if a < 0 then NInf else NaN)"
| "fl_mul (Fin a) NInf = (if 0 < a then NInf else if a < 0 then PInf else NaN)"
| "fl_mul PInf (Fin b) = (if 0 < b then PInf else if b < 0 then NInf else NaN)"
| "fl_mul NInf (Fin b) = (if 0 < b then NInf else if b < 0 then PInf else NaN)"
| "fl_mul PInf PInf = PInf"
| "fl_mul PInf NInf = NInf"
| "fl_mul NInf PInf = NInf"
| "fl_mul NInf NInf = PInf"
| "fl_mul NaN y = NaN"
| "fl_mul x NaN = NaN"

text \<open>
  IEEE division: a zero divisor gives an infinity or NaN.
\<close>

fun fl_div :: "fl \<Rightarrow> fl \<Rightarrow> fl" where
  "fl_div (Fin a) (Fin b) =
     (if b \<noteq> 0 then Fin (a / b) else if 0 < a then PInf else if a < 0 then NInf else NaN)"
| "fl_div (Fin a) PInf = Fin 0"
| "fl_div (Fin a) NInf = Fin 0"
| "fl_div PInf (Fin b) = (if b < 0 then NInf else PInf)"
| "fl_div NInf (Fin b) = (if b < 0 then PInf else NInf)"
| "fl_div PInf PInf = NaN"
| "fl_div PInf NInf = NaN"
| "fl_div NInf PInf = NaN"
| "fl_div NInf NInf = NaN"
| "fl_div NaN y = NaN"
| "fl_div x NaN = NaN"

text \<open>The comparisons \<^verbatim>\<open><\<close> and \<^verbatim>\<open>==\<close>: every comparison with NaN is false.\<close>

fun fl_less :: "fl \<Rightarrow> fl \<Rightarrow> bool" where
  "fl_less (Fin a) (Fin b) = (a < b)"
| "fl_less (Fin a) PInf = True"
| "fl_less (Fin a) NInf = False"
| "fl_less PInf y = False"
| "fl_less NInf (Fin b) = True"
| "fl_less NInf PInf = True"
| "fl_less NInf NInf = False"
| "fl_less NaN y = False"
| "fl_less x NaN = False"

definition fl_eq :: "fl \<Rightarrow> fl \<Rightarrow> bool" where
  "fl_eq x y = (x = y \<and> x \<noteq> NaN)"

text \<open>\<^verbatim>\<open>np.maximum\<close>, the step of \<^verbatim>\<open>np.max\<close>: a NaN operand gives NaN.\<close>

definition fl_maximum :: "fl \<Rightarrow> fl \<Rightarrow> fl" where
  "fl_maximum x y = (if x = NaN \<or> y = NaN then NaN else if fl_less x y then y else x)"

text \<open>
  An array is one-dimensional (shape \<open>(m,)\<close>) or two-dimensional (a list of rows of
  equal length). Only arrays with at least one row occur, so the number of columns is
  read from the first row.
\<close>

datatype ndarray = Vec "fl list" | Mat "fl list list"

definition ncols :: "'a list list \<Rightarrow> nat" where
  "ncols A = (case A of [] \<Rightarrow> 0 | r # _ \<Rightarrow> length r)"

definition shape :: "'a list list \<Rightarrow> nat \<times> nat" where
  "shape A = (length A, ncols A)"

text \<open>A one-dimensional operand of a two-dimensional operation is a single row.\<close>

fun atleast_2d :: "ndarray \<Rightarrow> fl list list" where
  "atleast_2d (Vec v) = [v]"
| "atleast_2d (Mat A) = A"

fun ravel :: "ndarray \<Rightarrow> fl list" where
  "ravel (Vec v) = v"
| "ravel (Mat A) = concat A"

fun nd_map :: "(fl \<Rightarrow> fl) \<Rightarrow> ndarray \<Rightarrow> ndarray" where
  "nd_map f (Vec v) = Vec (map f v)"
| "nd_map f (Mat A) = Mat (map (map f) A)"

text \<open>\<^verbatim>\<open>sigma.reshape(-1, 1)\<close>: one row per element.\<close>

definition reshape_col :: "'a list \<Rightarrow> 'a list list" where
  "reshape_col v = map (\<lambda>s. [s]) v"

text \<open>
  NumPy broadcasting of an elementwise binary operation over two two-dimensional
  operands: along each axis the sizes must agree or one of them must be 1, and an axis
  of size 1 is repeated. Incompatible shapes raise ValueError.
\<close>

definition bdim :: "nat \<Rightarrow> nat \<Rightarrow> nat option" where
  "bdim a b = (if a = b then Some a else if a = 1 then Some b else if b = 1 then Some a else None)"

definition bidx :: "nat \<Rightarrow> nat \<Rightarrow> nat" where
  "bidx n i = (if n = 1 then 0 else i)"

definition broadcast2 :: "('a \<Rightarrow> 'b \<Rightarrow> 'c) \<Rightarrow> 'a list list \<Rightarrow> 'b list list \<Rightarrow> error + 'c list list" where
  "broadcast2 f A B =
     (case (bdim (length A) (length B), bdim (ncols A) (ncols B)) of
        (Some r, Some c) \<Rightarrow>
          Inr (map (\<lambda>i. map (\<lambda>j. f (A ! bidx (length A) i ! bidx (ncols A) j)
                                      (B ! bidx (length B) i ! bidx (ncols B) j)) [0..<c]) [0..<r])
      | _ \<Rightarrow> Inl ValueError)"

text \<open>
  Array division under \<^verbatim>\<open>np.errstate(divide=...)\<close>. A finite non-zero number
  divided by zero sets the divide-by-zero condition; the setting decides whether that is
  ignored, reported as a warning, or raised as FloatingPointError. Warnings do not
  change the result and are not recorded.
\<close>

datatype errstate = Ignore | Warn | Raise

fun divide_by_zero :: "fl \<Rightarrow> fl \<Rightarrow> bool" where
  "divide_by_zero (Fin a) (Fin b) = (a \<noteq> 0 \<and> b = 0)"
| "divide_by_zero x y = False"

definition true_divide :: "errstate \<Rightarrow> fl list list \<Rightarrow> fl list list \<Rightarrow> error + fl list list" where
  "true_divide mode A B =
     err_bind (broadcast2 divide_by_zero A B) (\<lambda>flags.
     if mode = Raise \<and> (\<exists>row \<in> set flags. \<exists>b \<in> set row. b) then Inl FloatingPointError
     else broadcast2 fl_div A B)"

text \<open>
  \<^verbatim>\<open>np.max\<close> over all elements; an empty array raises ValueError.
\<close>

definition np_max :: "ndarray \<Rightarrow> error + fl" where
  "np_max a = (case ravel a of [] \<Rightarrow> Inl ValueError | x # xs \<Rightarrow> Inr (fold (\<lambda>y acc. fl_maximum acc y) xs x))"

text \<open>
  \<^verbatim>\<open>ei[mask] = v\<close> with a boolean mask of the same number of dimensions: the mask must
  have exactly the shape of the array (no broadcasting), else IndexError.
\<close>

definition mask_assign :: "fl list list \<Rightarrow> bool list list \<Rightarrow> fl \<Rightarrow> error + fl list list" where
  "mask_assign A M v =
     (if shape A = shape M
      then Inr (map (\<lambda>(r, m). map (\<lambda>(x, b). if b then v else x) (zip r m)) (zip A M))
      else Inl IndexError)"

section \<open>The collaborators\<close>

text \<open>
  \<^verbatim>\<open>scipy.stats.norm\<close> is not part of the module: its distribution function and
  density on the reals are parameters. On the special values they behave as SciPy's do.
\<close>

record norm =
  Phi :: "real \<Rightarrow> real"
  phi :: "real \<Rightarrow> real"

fun cdf :: "norm \<Rightarrow> fl \<Rightarrow> fl" where
  "cdf N (Fin z) = Fin (Phi N z)"
| "cdf N PInf = Fin 1"
| "cdf N NInf = Fin 0"
| "cdf N NaN = NaN"

fun pdf :: "norm \<Rightarrow> fl \<Rightarrow> fl" where
  "pdf N (Fin z) = Fin (phi N z)"
| "pdf N PInf = Fin 0"
| "pdf N NInf = Fin 0"
| "pdf N NaN = NaN"

text \<open>
  A fitted \<^verbatim>\<open>GaussianProcessRegressor\<close>: its posterior mean and standard deviation at a
  point, and whether it was fitted on targets of shape \<open>(n, 1)\<close> (then \<^verbatim>\<open>predict\<close>
  returns the means as an \<open>(m, 1)\<close> column) or of shape \<open>(n,)\<close> (then as a vector of
  length \<open>m\<close>). The standard deviations come as a vector. \<^verbatim>\<open>predict\<close> rejects an
  empty batch with ValueError.
\<close>

record gpr =
  mean_at :: "real list \<Rightarrow> fl"
  std_at :: "real list \<Rightarrow> fl"
  column_targets :: bool

definition predict :: "gpr \<Rightarrow> real list list \<Rightarrow> error + ndarray" where
  "predict g X =
     (if X = [] then Inl ValueError
      else Inr (if column_targets g then Mat (reshape_col (map (mean_at g) X))
                else Vec (map (mean_at g) X)))"

definition predict_std :: "gpr \<Rightarrow> real list list \<Rightarrow> error + (ndarray \<times> fl list)" where
  "predict_std g X =
     err_bind (predict g X) (\<lambda>mu. Inr (mu, map (std_at g) X))"

section \<open>The acquisition function\<close>

definition expected_improvement ::
  "norm \<Rightarrow> real list list \<Rightarrow> real list list \<Rightarrow> real list \<Rightarrow> gpr \<Rightarrow> real \<Rightarrow> error + fl list list" where
  "expected_improvement N X X_obs Y_obs g xi =
     err_bind (predict_std g X) (\<lambda>(mu, sigma0).
     err_bind (predict g X_obs) (\<lambda>mu_sample.
     let sigma = reshape_col sigma0 in
     err_bind (np_max mu_sample) (\<lambda>mu_sample_opt.
     let imp = atleast_2d (nd_map (\<lambda>m. fl_sub (fl_sub m mu_sample_opt) (Fin xi)) mu) in
     err_bind (true_divide Warn imp sigma) (\<lambda>Z.
     err_bind (broadcast2 fl_mul imp (map (map (cdf N)) Z)) (\<lambda>t1.
     err_bind (broadcast2 fl_mul sigma (map (map (pdf N)) Z)) (\<lambda>t2.
     err_bind (broadcast2 fl_add t1 t2) (\<lambda>ei.
     mask_assign ei (map (map (\<lambda>s. fl_eq s (Fin 0))) sigma) (Fin 0))))))))"

section \<open>The candidate proposer\<close>

text \<open>
  The fields of SciPy's \<^verbatim>\<open>OptimizeResult\<close> that the code reads. The code treats
  \<^verbatim>\<open>res.fun\<close> as a one-element array (it compares it and then takes \<^verbatim>\<open>res.fun[0]\<close>);
  \<open>res_fun\<close> is that element.
\<close>

record optres =
  res_x :: "real list"
  res_fun :: fl

text \<open>
  The calls to the collaborators are recorded in the order in which they happen.
\<close>

datatype event = Fit "real list list" "real list" | Minimize "real list"

text \<open>
  The collaborators of \<^verbatim>\<open>generate_parameters\<close>: the process-wide random generator
  (\<open>random_sample k\<close> is the \<open>k\<close>-th number it hands out during the call, each in
  \<open>[0, 1)\<close>), the construction and fitting of the regressor, and
  \<^verbatim>\<open>scipy.optimize.minimize\<close> with method L-BFGS-B, which gets the objective, the
  start point and the bounds. Both may raise.
\<close>

type_synonym acquisition =
  "real list list \<Rightarrow> real list list \<Rightarrow> real list \<Rightarrow> gpr \<Rightarrow> error + fl list list"

record env =
  random_sample :: "nat \<Rightarrow> real"
  fit :: "real list list \<Rightarrow> real list \<Rightarrow> error + gpr"
  minimize :: "(real list \<Rightarrow> error + fl list list) \<Rightarrow> real list \<Rightarrow> (real \<times> real) list \<Rightarrow> error + optres"

text \<open>
  \<^verbatim>\<open>np.random.uniform(low, high)\<close> maps a number \<open>u\<close> of the generator to
  \<open>low + (high - low) * u\<close>. With \<^verbatim>\<open>size=bs.shape[0]\<close> it draws one number per
  bound; with \<^verbatim>\<open>size=(n, d)\<close> it fills \<open>n\<close> rows of \<open>d\<close> numbers in row order, the
  bounds being broadcast along the rows. \<^verbatim>\<open>bs[:, 0]\<close> needs a two-dimensional \<open>bs\<close>:
  an empty list of bounds raises IndexError.
\<close>

definition uniform :: "(nat \<Rightarrow> real) \<Rightarrow> nat \<Rightarrow> real \<times> real \<Rightarrow> real" where
  "uniform u k b = fst b + (snd b - fst b) * u k"

definition uniform_vector :: "(nat \<Rightarrow> real) \<Rightarrow> (real \<times> real) list \<Rightarrow> error + real list" where
  "uniform_vector u bs =
     (if bs = [] then Inl IndexError
      else Inr (map (\<lambda>j. uniform u j (bs ! j)) [0..<length bs]))"

definition uniform_matrix ::
  "(nat \<Rightarrow> real) \<Rightarrow> (real \<times> real) list \<Rightarrow> nat \<Rightarrow> nat \<Rightarrow> error + real list list" where
  "uniform_matrix u bs n d =
     (if bs = [] then Inl IndexError
      else if length bs \<noteq> d \<and> length bs \<noteq> 1 then Inl ValueError
      else Inr (map (\<lambda>r. map (\<lambda>j. uniform u (r * d + j) (bs ! bidx (length bs) j)) [0..<d]) [0..<n]))"

text \<open>\<^verbatim>\<open>sys.float_info.max\<close>, the largest finite double.\<close>

definition float_max :: real where
  "float_max = (2 - 1 / 2 ^ 52) * 2 ^ 1023"

definition n_restarts :: nat where
  "n_restarts = 25"

text \<open>
  \<^verbatim>\<open>min_obj\<close>: the negated acquisition, called with its default \<open>xi\<close>, on
  \<^verbatim>\<open>X.reshape(-1, dim)\<close>, which for a location \<open>X\<close> of the search space is the batch of
  that single location.
\<close>

definition min_obj :: "acquisition \<Rightarrow> real list list \<Rightarrow> real list \<Rightarrow> gpr \<Rightarrow> real list \<Rightarrow> error + fl list list" where
  "min_obj acquisition Xs Ys g X =
     err_bind (acquisition [X] Xs Ys g) (\<lambda>a. Inr (map (map fl_neg) a))"

text \<open>
  The body of the loop over the start points: \<^verbatim>\<open>if res.fun < min_val\<close> the result
  becomes the best so far. The state is \<open>(min_val, min_x)\<close>, with \<open>None\<close> for Python's
  \<^verbatim>\<open>None\<close>.
\<close>

definition update_best :: "optres \<Rightarrow> fl \<times> real list option \<Rightarrow> fl \<times> real list option" where
  "update_best res best =
     (if fl_less (res_fun res) (fst best) then (res_fun res, Some (res_x res)) else best)"

text \<open>
  The loop itself. An exception of the optimizer leaves the loop (nothing catches it).
\<close>

fun restarts ::
  "(real list \<Rightarrow> error + optres) \<Rightarrow> real list list \<Rightarrow> fl \<times> real list option \<Rightarrow> event list
   \<Rightarrow> (error + fl \<times> real list option) \<times> event list" where
  "restarts opt [] best lg = (Inr best, lg)"
| "restarts opt (x0 # rest) best lg =
     (case opt x0 of
        Inl e \<Rightarrow> (Inl e, lg @ [Minimize x0])
      | Inr res \<Rightarrow> restarts opt rest (update_best res best) (lg @ [Minimize x0]))"

text \<open>\<^verbatim>\<open>min_x.tolist()\<close>: \<^verbatim>\<open>None\<close> has no such attribute.\<close>

definition tolist :: "real list option \<Rightarrow> error + real list" where
  "tolist min_x = (case min_x of None \<Rightarrow> Inl AttributeError | Some x \<Rightarrow> Inr x)"

definition generate_parameters ::
  "env \<Rightarrow> acquisition \<Rightarrow> real list list \<Rightarrow> real list \<Rightarrow> (real \<times> real) list
   \<Rightarrow> (error + real list) \<times> event list" where
  "generate_parameters E acquisition X_obs Y_obs bounds =
     (if concat X_obs = [] then (uniform_vector (random_sample E) bounds, [])
      else
        (case fit E X_obs Y_obs of
           Inl e \<Rightarrow> (Inl e, [Fit X_obs Y_obs])
         | Inr g \<Rightarrow>
            (case uniform_matrix (random_sample E) bounds n_restarts (ncols X_obs) of
               Inl e \<Rightarrow> (Inl e, [Fit X_obs Y_obs])
             | Inr starts \<Rightarrow>
                (case restarts (\<lambda>x0. minimize E (min_obj acquisition X_obs Y_obs g) x0 bounds)
                        starts (Fin float_max, None) [Fit X_obs Y_obs] of
                   (Inl e, lg) \<Rightarrow> (Inl e, lg)
                 | (Inr (min_val, min_x), lg) \<Rightarrow> (tolist min_x, lg)))))"


section \<open>Notions used in the statements\<close>

text \<open>
  One entry of the result of \<open>expected_improvement\<close>, from the mean \<open>m\<close> and the standard
  deviation \<open>s\<close> at the candidate and the best predicted mean \<open>opt\<close>; the same formula on
  reals; and the largest predicted mean at the observed inputs.
\<close>

definition ei_entry :: "norm \<Rightarrow> fl \<Rightarrow> real \<Rightarrow> fl \<Rightarrow> fl \<Rightarrow> fl" where
  "ei_entry N opt xi m s =
     (if fl_eq s (Fin 0) then Fin 0
      else let imp = fl_sub (fl_sub m opt) (Fin xi); Z = fl_div imp s
           in fl_add (fl_mul imp (cdf N Z)) (fl_mul s (pdf N Z)))"

definition ei_real :: "norm \<Rightarrow> real \<Rightarrow> real \<Rightarrow> real" where
  "ei_real N imp s = imp * Phi N (imp / s) + s * phi N (imp / s)"

definition best_mean :: "gpr \<Rightarrow> real list list \<Rightarrow> fl" where
  "best_mean g X_obs =
     (case map (mean_at g) X_obs of [] \<Rightarrow> NaN | y # ys \<Rightarrow> fold (\<lambda>y acc. fl_maximum acc y) ys y)"

text \<open>A location lies in the box: one coordinate per bound, each between its bounds.\<close>

definition in_bounds :: "(real \<times> real) list \<Rightarrow> real list \<Rightarrow> bool" where
  "in_bounds bs x = list_all2 (\<lambda>b v. fst b \<le> v \<and> v \<le> snd b) bs x"

section \<open>Example inputs\<close>

text \<open>
  Concrete collaborators on which the statements are evaluated. The distribution
  \<open>box_norm\<close> is the uniform one on \<open>[-1, 1]\<close>, whose values are rational. The regressor \<open>demo_gpr\<close> predicts the sum of
  the coordinates, with no uncertainty at the sums 0 and 1.
\<close>

definition box_norm :: norm where
  "box_norm = \<lparr>Phi = (\<lambda>z. max 0 (min 1 ((z + 1) / 2))),
               phi = (\<lambda>z. if - 1 \<le> z \<and> z \<le> 1 then 1 / 2 else 0)\<rparr>"

definition demo_gpr :: "bool \<Rightarrow> gpr" where
  "demo_gpr col = \<lparr>mean_at = (\<lambda>x. Fin (sum_list x)),
                    std_at = (\<lambda>x. Fin \<bar>sum_list x * (sum_list x - 1)\<bar>),
                    column_targets = col\<rparr>"

definition nan_gpr :: gpr where
  "nan_gpr = \<lparr>mean_at = (\<lambda>x. NaN), std_at = (\<lambda>x. Fin 1), column_targets = False\<rparr>"

text \<open>
  An optimizer that makes no step: it projects the start point onto the box and reports
  the objective there. Like SciPy's it rejects a start point whose length differs from
  the number of bounds.
\<close>

definition clip :: "(real \<times> real) list \<Rightarrow> real list \<Rightarrow> real list" where
  "clip bs x = map (\<lambda>(b, v). max (fst b) (min (snd b) v)) (zip bs x)"

definition demo_minimize ::
  "(real list \<Rightarrow> error + fl list list) \<Rightarrow> real list \<Rightarrow> (real \<times> real) list \<Rightarrow> error + optres" where
  "demo_minimize obj x0 bs =
     (if length x0 \<noteq> length bs then Inl ValueError
      else err_bind (obj (clip bs x0)) (\<lambda>a.
             case concat a of [v] \<Rightarrow> Inr \<lparr>res_x = clip bs x0, res_fun = v\<rparr> | _ \<Rightarrow> Inl ValueError))"

definition demo_env :: env where
  "demo_env = \<lparr>random_sample = (\<lambda>k. real (k mod 25) / 25),
               fit = (\<lambda>X Y. Inr (demo_gpr False)),
               minimize = demo_minimize\<rparr>"

definition demo_acquisition :: acquisition where
  "demo_acquisition X X_obs Y_obs g = expected_improvement box_norm X X_obs Y_obs g (1 / 100)"

text \<open>
  Variations: a fit whose predictions are NaN, an optimizer that reports an infinite
  objective everywhere, one that raises at the last start point, and one that reports
  NaN at the first.
\<close>

definition nan_env :: env where
  "nan_env = demo_env\<lparr>fit := (\<lambda>X Y. Inr nan_gpr)\<rparr>"

definition inf_env :: env where
  "inf_env = demo_env\<lparr>minimize := (\<lambda>obj x0 bs. Inr \<lparr>res_x = x0, res_fun = PInf\<rparr>)\<rparr>"

definition raising_env :: env where
  "raising_env = demo_env\<lparr>minimize :=
     (\<lambda>obj x0 bs. if x0 = [48 / 25] then Inl OptimizerError else demo_minimize obj x0 bs)\<rparr>"

definition flaky_env :: env where
  "flaky_env = demo_env\<lparr>minimize :=
     (\<lambda>obj x0 bs. if x0 = [0] then Inr \<lparr>res_x = x0, res_fun = NaN\<rparr> else demo_minimize obj x0 bs)\<rparr>"

text \<open>
  The start points that \<open>demo_env\<close> draws in the box \<open>[0, 2]\<close>, and what \<open>demo_minimize\<close>
  returns for them on the observations \<open>[[0], [1]]\<close>.
\<close>

definition demo_starts :: "real list list" where
  "demo_starts = map (\<lambda>k. [2 * real k / 25]) [0..<25]"

definition demo_results :: "optres list" where
  "demo_results =
     [\<lparr>res_x = [0], res_fun = Fin 0\<rparr>,
      \<lparr>res_x = [2 / 25], res_fun = Fin 0\<rparr>,
      \<lparr>res_x = [4 / 25], res_fun = Fin 0\<rparr>,
      \<lparr>res_x = [6 / 25], res_fun = Fin 0\<rparr>,
      \<lparr>res_x = [8 / 25], res_fun = Fin 0\<rparr>,
      \<lparr>res_x = [2 / 5], res_fun = Fin 0\<rparr>,
      \<lparr>res_x = [12 / 25], res_fun = Fin 0\<rparr>,
      \<lparr>res_x = [14 / 25], res_fun = Fin 0\<rparr>,
      \<lparr>res_x = [16 / 25], res_fun = Fin 0\<rparr>,
      \<lparr>res_x = [18 / 25], res_fun = Fin 0\<rparr>,
      \<lparr>res_x = [4 / 5], res_fun = Fin 0\<rparr>,
      \<lparr>res_x = [22 / 25], res_fun = Fin 0\<rparr>,
      \<lparr>res_x = [24 / 25], res_fun = Fin 0\<rparr>,
      \<lparr>res_x = [26 / 25], res_fun = Fin (- (24241 / 520000))\<rparr>,
      \<lparr>res_x = [28 / 25], res_fun = Fin (- (280921 / 1680000))\<rparr>,
      \<lparr>res_x = [6 / 5], res_fun = Fin (- (1393 / 4800))\<rparr>,
      \<lparr>res_x = [32 / 25], res_fun = Fin (- (1863241 / 4480000))\<rparr>,
      \<lparr>res_x = [34 / 25], res_fun = Fin (- (3334801 / 6120000))\<rparr>,
      \<lparr>res_x = [36 / 25], res_fun = Fin (- (5367481 / 7920000))\<rparr>,
      \<lparr>res_x = [38 / 25], res_fun = Fin (- (8049601 / 9880000))\<rparr>,
      \<lparr>res_x = [8 / 5], res_fun = Fin (- (18361 / 19200))\<rparr>,
      \<lparr>res_x = [42 / 25], res_fun = Fin (- (15746161 / 14280000))\<rparr>,
      \<lparr>res_x = [44 / 25], res_fun = Fin (- (20967961 / 16720000))\<rparr>,
      \<lparr>res_x = [46 / 25], res_fun = Fin (- (27253921 / 19320000))\<rparr>,
      \<lparr>res_x = [48 / 25], res_fun = Fin (- (34723081 / 22080000))\<rparr>]"

section \<open>Properties of the acquisition function\<close>

subsection \<open>Columns and broadcasting\<close>



lemma ncols_reshape_col: "v \<noteq> [] \<Longrightarrow> ncols (reshape_col v) = 1"
  by (cases v) (simp_all add: ncols_def reshape_col_def)

lemma length_reshape_col: "length (reshape_col v) = length v"
  by (simp add: reshape_col_def)

lemma map_map_reshape_col: "map (map h) (reshape_col v) = reshape_col (map h v)"
  by (simp add: reshape_col_def)

lemma concat_reshape_col: "concat (reshape_col v) = v"
  by (induction v) (simp_all add: reshape_col_def)

lemma broadcast2_col_col:
  assumes "X \<noteq> []"
  shows "broadcast2 f (reshape_col (map a X)) (reshape_col (map b X))
         = Inr (reshape_col (map (\<lambda>x. f (a x) (b x)) X))"
proof -
  have nc: "ncols (reshape_col (map a X)) = 1" "ncols (reshape_col (map b X)) = 1"
    using assms by (simp_all add: ncols_reshape_col)
  have "map (\<lambda>i. map (\<lambda>j. f (reshape_col (map a X) ! bidx (length X) i ! bidx 1 j)
                              (reshape_col (map b X) ! bidx (length X) i ! bidx 1 j)) [0..<1]) [0..<length X]
        = reshape_col (map (\<lambda>x. f (a x) (b x)) X)"
    by (rule nth_equalityI) (auto simp: reshape_col_def bidx_def)
  then show ?thesis
    by (simp add: broadcast2_def nc length_reshape_col bdim_def)
qed

lemma mask_assign_col_col:
  assumes "X \<noteq> []"
  shows "mask_assign (reshape_col (map a X)) (reshape_col (map b X)) v
         = Inr (reshape_col (map (\<lambda>x. if b x then v else a x) X))"
proof -
  have "map (\<lambda>(r, m). map (\<lambda>(x, b). if b then v else x) (zip r m))
          (zip (reshape_col (map a X)) (reshape_col (map b X)))
        = reshape_col (map (\<lambda>x. if b x then v else a x) X)"
    by (induction X) (simp_all add: reshape_col_def)
  then show ?thesis
    using assms by (simp add: mask_assign_def shape_def ncols_reshape_col length_reshape_col)
qed

lemma np_max_predict:
  "X_obs \<noteq> [] \<Longrightarrow> err_bind (predict g X_obs) np_max = Inr (best_mean g X_obs)"
  by (cases X_obs) (simp_all add: predict_def np_max_def best_mean_def concat_reshape_col)

lemma true_divide_Warn: "true_divide Warn A B = broadcast2 fl_div A B"
  by (simp add: true_divide_def broadcast2_def split: option.splits)

lemma imp_column:
  "column_targets g \<or> length X = 1 \<Longrightarrow>
   atleast_2d (nd_map f (if column_targets g then Mat (reshape_col (map (mean_at g) X))
                         else Vec (map (mean_at g) X)))
   = reshape_col (map (\<lambda>x. f (mean_at g x)) X)"
  by (cases X) (auto simp: reshape_col_def)

lemma expected_improvement_returns:
  assumes X: "X \<noteq> []" and Xo: "X_obs \<noteq> []" and sh: "column_targets g \<or> length X = 1"
  shows "expected_improvement N X X_obs Y_obs g xi
         = Inr (reshape_col (map (\<lambda>x. ei_entry N (best_mean g X_obs) xi (mean_at g x) (std_at g x)) X))"
proof -
  have opt: "np_max (if column_targets g then Mat (reshape_col (map (mean_at g) X_obs))
                     else Vec (map (mean_at g) X_obs)) = Inr (best_mean g X_obs)"
    using np_max_predict [OF Xo, of g] Xo by (simp add: predict_def)
  show ?thesis
    unfolding expected_improvement_def predict_std_def ei_entry_def Let_def
    using X Xo
    by (simp add: predict_def opt imp_column [OF sh] true_divide_Warn broadcast2_col_col
        map_map_reshape_col mask_assign_col_col)
qed

lemma shape_map_map: "shape (map (map h) A) = shape A"
  by (cases A) (simp_all add: shape_def ncols_def)

lemma broadcast2_shape:
  assumes "bdim (length A) (length B) = Some r" and "bdim (ncols A) (ncols B) = Some c" and "0 < r"
  shows "\<exists>C. broadcast2 f A B = Inr C \<and> shape C = (r, c)"
proof -
  have "[0..<r] = 0 # [1..<r]"
    using assms(3) by (simp add: upt_rec)
  then show ?thesis
    using assms by (simp add: broadcast2_def shape_def ncols_def)
qed

lemma expected_improvement_raises:
  assumes X: "2 \<le> length X" and Xo: "X_obs \<noteq> []" and sh: "\<not> column_targets g"
  shows "expected_improvement N X X_obs Y_obs g xi = Inl IndexError"
proof -
  define m where "m = length X"
  define sigma where "sigma = reshape_col (map (std_at g) X)"
  define imp where "imp = [map ((\<lambda>m. fl_sub (fl_sub m (best_mean g X_obs)) (Fin xi)) \<circ> mean_at g) X]"
  have Xne: "X \<noteq> []" using X by (cases X) simp_all
  have m: "2 \<le> m" "0 < m" "m \<noteq> 1" using X unfolding m_def by linarith+
  have opt: "np_max (Vec (map (mean_at g) X_obs)) = Inr (best_mean g X_obs)"
    using np_max_predict [OF Xo, of g] Xo sh by (simp add: predict_def)
  have shs: "length sigma = m" "ncols sigma = 1"
    using Xne by (simp_all add: sigma_def m_def length_reshape_col ncols_reshape_col)
  have shi: "length imp = 1" "ncols imp = m"
    by (simp_all add: imp_def ncols_def m_def)
  obtain Z where Z: "true_divide Warn imp sigma = Inr Z" "shape Z = (m, m)"
    using broadcast2_shape [of imp sigma m m fl_div] m
    by (auto simp: shs shi bdim_def true_divide_Warn)
  have shZ: "length Z = m" "ncols (map (map h) Z) = m" for h :: "fl \<Rightarrow> fl"
    using Z(2) shape_map_map [of h Z] by (simp_all add: shape_def)
  obtain t1 where t1: "broadcast2 fl_mul imp (map (map (cdf N)) Z) = Inr t1" "shape t1 = (m, m)"
    using broadcast2_shape [of imp "map (map (cdf N)) Z" m m fl_mul] m
    by (auto simp: shi shZ bdim_def)
  obtain t2 where t2: "broadcast2 fl_mul sigma (map (map (pdf N)) Z) = Inr t2" "shape t2 = (m, m)"
    using broadcast2_shape [of sigma "map (map (pdf N)) Z" m m fl_mul] m
    by (auto simp: shs shZ bdim_def)
  obtain ei where ei: "broadcast2 fl_add t1 t2 = Inr ei" "shape ei = (m, m)"
    using broadcast2_shape [of t1 t2 m m fl_add] m t1(2) t2(2)
    by (auto simp: shape_def bdim_def)
  have "shape (map (map (\<lambda>s. fl_eq s (Fin 0))) sigma) = (m, 1)"
    using shs by (simp add: shape_def ncols_def split: list.splits)
  then have "mask_assign ei (map (map (\<lambda>s. fl_eq s (Fin 0))) sigma) (Fin 0) = Inl IndexError"
    using ei(2) m by (simp add: mask_assign_def)
  then show ?thesis
    unfolding expected_improvement_def predict_std_def
    using Xne Xo sh Z(1) t1(1) t2(1) ei(1)
    by (simp add: predict_def opt Let_def sigma_def [symmetric] imp_def [symmetric])
qed

lemma expected_improvement_empty:
  "X = [] \<or> X_obs = [] \<Longrightarrow> expected_improvement N X X_obs Y_obs g xi = Inl ValueError"
  by (cases "X = []") (simp_all add: expected_improvement_def predict_std_def predict_def)



lemma ei_entry_finite:
  "ei_entry N (Fin o') xi (Fin m) (Fin s) = (if s = 0 then Fin 0 else Fin (ei_real N (m - o' - xi) s))"
  by (simp add: ei_entry_def ei_real_def fl_eq_def fl_sub_def Let_def)

lemma fold_maximum_finite:
  "fold (\<lambda>y acc. fl_maximum acc y) (map Fin ys) (Fin y) = Fin (Max (set (y # ys)))"
proof (induction ys arbitrary: y)
  case Nil
  show ?case by simp
next
  case (Cons z zs)
  have "fl_maximum (Fin y) (Fin z) = Fin (max y z)"
    by (simp add: fl_maximum_def max_def)
  moreover have "Max (set (max y z # zs)) = Max (set (y # z # zs))"
    by (cases "zs = []") (simp_all add: max.assoc)
  ultimately show ?case
    using Cons.IH [of "max y z"] by simp
qed

lemma best_mean_finite:
  assumes "X_obs \<noteq> []" and "\<And>x. x \<in> set X_obs \<Longrightarrow> mean_at g x = Fin (mf x)"
  shows "best_mean g X_obs = Fin (Max (mf ` set X_obs))"
proof -
  obtain x xs where X: "X_obs = x # xs" using assms(1) by (cases X_obs) auto
  have eq: "map (mean_at g) xs = map Fin (map mf xs)" and hx: "mean_at g x = Fin (mf x)"
    using assms(2) by (simp_all add: X)
  have "best_mean g X_obs = fold (\<lambda>y acc. fl_maximum acc y) (map (mean_at g) xs) (mean_at g x)"
    by (simp add: best_mean_def X)
  also have "\<dots> = fold (\<lambda>y acc. fl_maximum acc y) (map Fin (map mf xs)) (Fin (mf x))"
    by (simp only: eq hx)
  also have "\<dots> = Fin (Max (set (mf x # map mf xs)))"
    by (rule fold_maximum_finite)
  also have "set (mf x # map mf xs) = mf ` set X_obs"
    by (simp add: X)
  finally show ?thesis .
qed


lemma expected_improvement_cases:
  "expected_improvement N X X_obs Y_obs g xi =
     (if X = [] \<or> X_obs = [] then Inl ValueError
      else if \<not> column_targets g \<and> length X \<noteq> 1 then Inl IndexError
      else Inr (reshape_col (map (\<lambda>x. ei_entry N (best_mean g X_obs) xi (mean_at g x) (std_at g x)) X)))"
proof -
  consider "X = [] \<or> X_obs = []"
    | "X \<noteq> []" "X_obs \<noteq> []" "\<not> column_targets g" "length X \<noteq> 1"
    | "X \<noteq> []" "X_obs \<noteq> []" "column_targets g \<or> length X = 1"
    by blast
  then show ?thesis
  proof cases
    case 1
    then show ?thesis
      using expected_improvement_empty [of X X_obs N Y_obs g xi] by simp
  next
    case 2
    then have "2 \<le> length X"
      by (cases X) (simp_all add: Suc_le_eq)
    then show ?thesis
      using 2 expected_improvement_raises [of X X_obs g N Y_obs xi] by simp
  next
    case 3
    then show ?thesis
      using expected_improvement_returns [of X X_obs g N Y_obs xi] by auto
  qed
qed

lemma expected_improvement_entry:
  assumes "expected_improvement N X X_obs Y_obs g xi = Inr ei" and "i < length X"
  shows "ei ! i = [ei_entry N (best_mean g X_obs) xi (mean_at g (X ! i)) (std_at g (X ! i))]"
    and "length ei = length X" and "X_obs \<noteq> []"
  using assms
  by (auto simp: expected_improvement_cases reshape_col_def split: if_splits)


subsection \<open>The claims about the acquisition function\<close>

text \<open>
  Claim C1, at an input on which it fails. Both candidates of the batch \<open>[[2], [3]]\<close>
  have a finite mean and a positive standard deviation, the observed inputs are not
  empty and \<open>xi\<close> is not negative, so the claim promises the closed form for each of
  them. The regressor returns its means as a vector (it was fitted on a list of
  scalars, as \<open>generate_parameters\<close> fits it): \<open>imp\<close> is then a row, \<open>imp / sigma\<close> a 2 by 2
  array, and the assignment under the 2 by 1 mask \<open>sigma == 0.0\<close> raises IndexError. No
  value is computed for any candidate.
\<close>

theorem closed_form_batch_raises:
  "mean_at (demo_gpr False) [2] = Fin 2 \<and> std_at (demo_gpr False) [2] = Fin 2 \<and>
   mean_at (demo_gpr False) [3] = Fin 3 \<and> std_at (demo_gpr False) [3] = Fin 6 \<and>
   expected_improvement box_norm [[2], [3]] [[0], [1]] [0, 5] (demo_gpr False) (1 / 100)
     = Inl IndexError"
  by (simp add: expected_improvement_cases demo_gpr_def)

text \<open>
  Claim C2, at an input on which it fails. The batch \<open>[[2], [1], [3 / 2]]\<close> mixes the
  standard deviations 2, 0 and 3 / 4. With the means returned as a vector, the
  statement that forces the zero-sigma entries to 0 is the one that raises: the mask has
  shape 3 by 1, the array shape 3 by 3. Neither a 0 for the second candidate nor the
  closed form for the other two is returned.
\<close>

theorem mixed_batch_raises:
  "std_at (demo_gpr False) [2] = Fin 2 \<and> std_at (demo_gpr False) [1] = Fin 0 \<and>
   std_at (demo_gpr False) [3 / 2] = Fin (3 / 4) \<and>
   expected_improvement box_norm [[2], [1], [3 / 2]] [[0], [1]] [0, 1] (demo_gpr False) (1 / 100)
     = Inl IndexError"
  by (simp add: expected_improvement_cases demo_gpr_def)

text \<open>
  Claim C6, at the input on which it fails. The regressor returns its means as a vector
  of length \<open>m\<close> (it was fitted on a list of scalars, as \<open>generate_parameters\<close> fits it).
  With \<open>m = 2\<close> candidates the division by the column \<open>sigma\<close> broadcasts to a 2 by 2
  array, the mask \<open>sigma == 0.0\<close> has shape 2 by 1, and the assignment raises IndexError:
  no array of two improvements is returned.
\<close>

theorem ei_batch_raises:
  "expected_improvement box_norm [[1], [2]] [[0], [1]] [0, 1] (demo_gpr False) (1 / 100) = Inl IndexError"
  by (simp add: expected_improvement_cases demo_gpr_def)

text \<open>
  Claim C10. The result of \<open>expected_improvement\<close> does not depend on \<open>Y_obs\<close>: with the
  other arguments the same, any two values of \<open>Y_obs\<close> give the same result (a value or
  an error).
\<close>

theorem ei_ignores_Y_obs:
  "expected_improvement N X X_obs Y1 g xi = expected_improvement N X X_obs Y2 g xi"
  by (simp add: expected_improvement_def)

section \<open>Properties of the candidate proposer\<close>

subsection \<open>The loop over the start points\<close>

lemma fl_less_irrefl: "\<not> fl_less x x"
  by (cases x) simp_all

lemma fl_less_trans: "fl_less x y \<Longrightarrow> fl_less y z \<Longrightarrow> fl_less x z"
  by (cases x; cases y; cases z) simp_all

lemma fold_update_best_inv:
  "case fold update_best rs (mv0, None) of
     (mv, None) \<Rightarrow> mv = mv0 \<and> (\<forall>j < length rs. \<not> fl_less (res_fun (rs ! j)) mv0)
   | (mv, Some x) \<Rightarrow>
       (\<exists>i < length rs. x = res_x (rs ! i) \<and> mv = res_fun (rs ! i) \<and> fl_less mv mv0 \<and>
          (\<forall>j < length rs. \<not> fl_less (res_fun (rs ! j)) mv) \<and>
          (\<forall>j < i. res_fun (rs ! j) \<noteq> mv))"
proof (induction rs rule: rev_induct)
  case Nil
  show ?case by simp
next
  case (snoc r rs)
  obtain mv mx where st: "fold update_best rs (mv0, None) = (mv, mx)"
    by (cases "fold update_best rs (mv0, None)")
  have step: "fold update_best (rs @ [r]) (mv0, None) = update_best r (mv, mx)"
    by (simp add: st)
  have IH: "case (mv, mx) of
     (mv, None) \<Rightarrow> mv = mv0 \<and> (\<forall>j < length rs. \<not> fl_less (res_fun (rs ! j)) mv0)
   | (mv, Some x) \<Rightarrow>
       (\<exists>i < length rs. x = res_x (rs ! i) \<and> mv = res_fun (rs ! i) \<and> fl_less mv mv0 \<and>
          (\<forall>j < length rs. \<not> fl_less (res_fun (rs ! j)) mv) \<and>
          (\<forall>j < i. res_fun (rs ! j) \<noteq> mv))"
    using snoc.IH by (simp only: st)
  have older: "\<forall>j < length rs. \<not> fl_less (res_fun (rs ! j)) mv"
    using IH by (cases mx) auto
  have below: "mv = mv0 \<or> fl_less mv mv0"
    using IH by (cases mx) auto
  show ?case
  proof (cases "fl_less (res_fun r) mv")
    case True
    have upd: "update_best r (mv, mx) = (res_fun r, Some (res_x r))"
      using True by (simp add: update_best_def)
    have a: "\<forall>j < length (rs @ [r]). \<not> fl_less (res_fun ((rs @ [r]) ! j)) (res_fun r)"
      using older True fl_less_trans fl_less_irrefl
      by (auto simp: nth_append less_Suc_eq)
    have b: "\<forall>j < length rs. res_fun ((rs @ [r]) ! j) \<noteq> res_fun r"
      using older True by (auto simp: nth_append)
    have c: "fl_less (res_fun r) mv0"
      using True below fl_less_trans by blast
    have "\<exists>i < length (rs @ [r]). res_x r = res_x ((rs @ [r]) ! i) \<and>
            res_fun r = res_fun ((rs @ [r]) ! i) \<and> fl_less (res_fun r) mv0 \<and>
            (\<forall>j < length (rs @ [r]). \<not> fl_less (res_fun ((rs @ [r]) ! j)) (res_fun r)) \<and>
            (\<forall>j < i. res_fun ((rs @ [r]) ! j) \<noteq> res_fun r)"
      using a b c by (intro exI [of _ "length rs"]) simp
    then show ?thesis
      by (simp only: step upd prod.case option.case)
  next
    case False
    have upd: "update_best r (mv, mx) = (mv, mx)"
      using False by (simp add: update_best_def)
    show ?thesis
    proof (cases mx)
      case None
      then have "mv = mv0 \<and> (\<forall>j < length (rs @ [r]). \<not> fl_less (res_fun ((rs @ [r]) ! j)) mv0)"
        using IH False by (auto simp: nth_append less_Suc_eq)
      moreover have "fold update_best (rs @ [r]) (mv0, None) = (mv, None)"
        using step upd None by simp
      ultimately show ?thesis
        by (simp only: prod.case option.case) blast
    next
      case (Some x)
      then obtain i where i: "i < length rs" "x = res_x (rs ! i)" "mv = res_fun (rs ! i)"
        "fl_less mv mv0" "\<forall>j < i. res_fun (rs ! j) \<noteq> mv"
        using IH by auto
      have "\<exists>i' < length (rs @ [r]). x = res_x ((rs @ [r]) ! i') \<and> mv = res_fun ((rs @ [r]) ! i') \<and>
              fl_less mv mv0 \<and>
              (\<forall>j < length (rs @ [r]). \<not> fl_less (res_fun ((rs @ [r]) ! j)) mv) \<and>
              (\<forall>j < i'. res_fun ((rs @ [r]) ! j) \<noteq> mv)"
        using i older False by (intro exI [of _ i]) (auto simp: nth_append less_Suc_eq)
      moreover have "fold update_best (rs @ [r]) (mv0, None) = (mv, Some x)"
        using step upd Some by simp
      ultimately show ?thesis
        by (simp only: prod.case option.case)
    qed
  qed
qed

lemma fold_update_best_none:
  "\<forall>r \<in> set rs. \<not> fl_less (res_fun r) mv \<Longrightarrow> fold update_best rs (mv, mx) = (mv, mx)"
  by (induction rs) (simp_all add: update_best_def)

lemma restarts_all_return:
  assumes "list_all2 (\<lambda>x0 r. opt x0 = Inr r) xs rs"
  shows "restarts opt xs best lg = (Inr (fold update_best rs best), lg @ map Minimize xs)"
  using assms
  by (induction arbitrary: best lg rule: list_all2_induct) simp_all

lemma restarts_raise:
  assumes "list_all2 (\<lambda>x0 r. opt x0 = Inr r) xs rs" and "opt x = Inl e"
  shows "restarts opt (xs @ x # ys) best lg = (Inl e, lg @ map Minimize xs @ [Minimize x])"
  using assms
  by (induction arbitrary: best lg rule: list_all2_induct) simp_all

lemma restarts_preserve:
  assumes "restarts opt xs (mv, mx) lg = (Inr (mv', Some x), lg')"
    and "\<forall>x0 r. opt x0 = Inr r \<longrightarrow> P (res_x r)"
    and "\<forall>y. mx = Some y \<longrightarrow> P y"
  shows "P x"
  using assms
proof (induction xs arbitrary: mv mx lg)
  case Nil
  then show ?case by simp
next
  case (Cons x0 xs)
  show ?case
  proof (cases "opt x0")
    case (Inl e)
    then show ?thesis using Cons.prems(1) by simp
  next
    case (Inr res)
    obtain mv1 mx1 where upd: "update_best res (mv, mx) = (mv1, mx1)"
      by (cases "update_best res (mv, mx)")
    have "P (res_x res)"
      using Cons.prems(2) Inr by blast
    then have kept: "\<forall>y. mx1 = Some y \<longrightarrow> P y"
      using upd Cons.prems(3) by (auto simp: update_best_def split: if_splits)
    have "restarts opt xs (mv1, mx1) (lg @ [Minimize x0]) = (Inr (mv', Some x), lg')"
      using Cons.prems(1) Inr upd by simp
    then show ?thesis
      using Cons.IH [of mv1 mx1] Cons.prems(2) kept by blast
  qed
qed

lemma uniform_matrix_length:
  "uniform_matrix u bs n d = Inr starts \<Longrightarrow> length starts = n"
  by (auto simp: uniform_matrix_def split: if_splits)

lemma uniform_in_range:
  assumes "fst b \<le> snd b" and "0 \<le> u k" and "u k < 1"
  shows "fst b \<le> uniform u k b \<and> uniform u k b \<le> snd b"
proof -
  have "0 \<le> (snd b - fst b) * u k"
    using assms by simp
  moreover have "(snd b - fst b) * u k \<le> (snd b - fst b) * 1"
    using assms by (intro mult_left_mono) simp_all
  ultimately show ?thesis
    by (simp add: uniform_def)
qed

lemma generate_parameters_nonempty:
  assumes "concat X_obs \<noteq> []"
  shows "generate_parameters E acquisition X_obs Y_obs bounds =
        (case fit E X_obs Y_obs of
           Inl e \<Rightarrow> (Inl e, [Fit X_obs Y_obs])
         | Inr g \<Rightarrow>
            (case uniform_matrix (random_sample E) bounds n_restarts (ncols X_obs) of
               Inl e \<Rightarrow> (Inl e, [Fit X_obs Y_obs])
             | Inr starts \<Rightarrow>
                (case restarts (\<lambda>x0. minimize E (min_obj acquisition X_obs Y_obs g) x0 bounds)
                        starts (Fin float_max, None) [Fit X_obs Y_obs] of
                   (Inl e, lg) \<Rightarrow> (Inl e, lg)
                 | (Inr (min_val, min_x), lg) \<Rightarrow> (tolist min_x, lg))))"
  using assms by (simp only: generate_parameters_def if_False)

lemma generate_parameters_all_return:
  assumes ne: "concat X_obs \<noteq> []"
    and fit: "fit E X_obs Y_obs = Inr g"
    and starts: "uniform_matrix (random_sample E) bounds n_restarts (ncols X_obs) = Inr starts"
    and ok: "list_all2 (\<lambda>x0 r. minimize E (min_obj acquisition X_obs Y_obs g) x0 bounds = Inr r) starts rs"
  shows "generate_parameters E acquisition X_obs Y_obs bounds
         = (tolist (snd (fold update_best rs (Fin float_max, None))),
            Fit X_obs Y_obs # map Minimize starts)"
proof -
  obtain mv mx where st: "fold update_best rs (Fin float_max, None) = (mv, mx)"
    by (cases "fold update_best rs (Fin float_max, None)")
  show ?thesis
    using ne restarts_all_return [OF ok, of "(Fin float_max, None)" "[Fit X_obs Y_obs]"]
    by (simp add: generate_parameters_def fit starts st)
qed

lemma best_of_restarts:
  assumes "length rs = n"
  shows "case tolist (snd (fold update_best rs (Fin float_max, None))) of
           Inl e \<Rightarrow> e = AttributeError \<and> (\<forall>j < n. \<not> fl_less (res_fun (rs ! j)) (Fin float_max))
         | Inr x \<Rightarrow>
             (\<exists>i < n. x = res_x (rs ! i) \<and> fl_less (res_fun (rs ! i)) (Fin float_max) \<and>
                (\<forall>j < n. \<not> fl_less (res_fun (rs ! j)) (res_fun (rs ! i))) \<and>
                (\<forall>j < i. res_fun (rs ! j) \<noteq> res_fun (rs ! i)))"
proof -
  obtain mv mx where st: "fold update_best rs (Fin float_max, None) = (mv, mx)"
    by (cases "fold update_best rs (Fin float_max, None)")
  show ?thesis
  proof (cases mx)
    case None
    then show ?thesis
      using fold_update_best_inv [of "Fin float_max" rs] assms
      by (simp add: st tolist_def)
  next
    case (Some x)
    then obtain i where "i < n" "x = res_x (rs ! i)" "mv = res_fun (rs ! i)"
      "fl_less mv (Fin float_max)" "\<forall>j < n. \<not> fl_less (res_fun (rs ! j)) mv"
      "\<forall>j < i. res_fun (rs ! j) \<noteq> mv"
      using fold_update_best_inv [of "Fin float_max" rs] assms by (auto simp: st)
    then show ?thesis
      by (auto simp: st Some tolist_def)
  qed
qed

subsection \<open>The example runs\<close>

lemma float_max_pos: "0 < float_max"
  by (simp add: float_max_def)

lemma clip_in_bounds:
  assumes "length x = length bs" and "\<forall>b \<in> set bs. fst b \<le> snd b"
  shows "in_bounds bs (clip bs x)"
proof -
  have "fst (bs ! i) \<le> snd (bs ! i)" if "i < length bs" for i
    using assms(2) nth_mem [OF that] by blast
  then show ?thesis
    unfolding in_bounds_def clip_def using assms(1)
    by (simp add: list_all2_conv_all_nth max_def min_def)
qed

lemma demo_minimize_in_bounds:
  assumes "\<forall>b \<in> set bs. fst b \<le> snd b" and "demo_minimize obj x0 bs = Inr r"
  shows "in_bounds bs (res_x r)"
proof -
  have len: "length x0 = length bs"
    using assms(2) by (auto simp: demo_minimize_def split: if_splits)
  then obtain a v where "obj (clip bs x0) = Inr a" and "r = \<lparr>res_x = clip bs x0, res_fun = v\<rparr>"
    using assms(2)
    by (cases "obj (clip bs x0)") (auto simp: demo_minimize_def split: list.splits)
  then show ?thesis
    using clip_in_bounds [OF len assms(1)] by simp
qed

lemma demo_starts_literal:
  "demo_starts = [[0], [2 / 25], [4 / 25], [6 / 25], [8 / 25], [2 / 5], [12 / 25], [14 / 25], [16 / 25], [18 / 25], [4 / 5], [22 / 25], [24 / 25], [26 / 25], [28 / 25], [6 / 5], [32 / 25], [34 / 25], [36 / 25], [38 / 25], [8 / 5], [42 / 25], [44 / 25], [46 / 25], [48 / 25]]"
  by (simp add: demo_starts_def upt_rec)

lemma demo_starts_eq:
  "uniform_matrix (\<lambda>k. real (k mod 25) / 25) [(0, 2)] n_restarts (ncols [[0], [1::real]])
   = Inr demo_starts"
proof -
  have "map (\<lambda>k. [2 * (real (k mod 25) / 25)]) [0..<25] = map (\<lambda>k. [2 * real k / 25]) [0..<25]"
    by (rule map_cong) simp_all
  then show ?thesis
    by (simp add: uniform_matrix_def n_restarts_def ncols_def uniform_def bidx_def demo_starts_def)
qed

lemma demo_env_starts:
  "uniform_matrix (random_sample demo_env) [(0, 2)] n_restarts (ncols [[0], [1::real]]) = Inr demo_starts"
  using demo_starts_eq by (simp add: demo_env_def)

lemma demo_objective:
  "min_obj demo_acquisition [[0], [1]] [0, 1] (demo_gpr False) [x]
   = Inr [[fl_neg (ei_entry box_norm (Fin 1) (1 / 100) (Fin x) (Fin \<bar>x * (x - 1)\<bar>))]]"
proof -
  have "best_mean (demo_gpr False) [[0], [1]] = Fin 1"
    by (simp add: best_mean_def demo_gpr_def fl_maximum_def)
  then show ?thesis
    by (simp add: min_obj_def demo_acquisition_def expected_improvement_cases reshape_col_def demo_gpr_def)
qed

lemma demo_minimize_value:
  assumes "0 \<le> x" "x \<le> 2"
  shows "demo_minimize (min_obj demo_acquisition [[0], [1]] [0, 1] (demo_gpr False)) [x] [(0, 2)]
   = Inr \<lparr>res_x = [x], res_fun = fl_neg (ei_entry box_norm (Fin 1) (1 / 100) (Fin x) (Fin \<bar>x * (x - 1)\<bar>))\<rparr>"
  using assms by (simp add: demo_minimize_def clip_def demo_objective)

lemma demo_results_ok:
  "list_all2 (\<lambda>x0 r. minimize demo_env (min_obj demo_acquisition [[0], [1]] [0, 1] (demo_gpr False)) x0 [(0, 2)] = Inr r)
     demo_starts demo_results"
  by (simp add: demo_starts_literal demo_results_def demo_env_def demo_minimize_value
      ei_entry_finite ei_real_def box_norm_def)

lemma demo_run:
  "generate_parameters demo_env demo_acquisition [[0], [1]] [0, 1] [(0, 2)]
   = (Inr [48 / 25], Fit [[0], [1]] [0, 1] # map Minimize demo_starts)"
proof -
  have "tolist (snd (fold update_best demo_results (Fin float_max, None))) = Inr [48 / 25]"
    using float_max_pos by (simp add: demo_results_def update_best_def tolist_def)
  moreover have "fit demo_env [[0], [1]] [0, 1] = Inr (demo_gpr False)"
    by (simp add: demo_env_def)
  ultimately show ?thesis
    using generate_parameters_all_return [OF _ _ demo_env_starts demo_results_ok] by simp
qed

lemma nan_objective:
  "min_obj demo_acquisition [[0], [1]] [0, 1] nan_gpr [x] = Inr [[NaN]]"
proof -
  have "best_mean nan_gpr [[0], [1]] = NaN"
    by (simp add: best_mean_def nan_gpr_def fl_maximum_def)
  then show ?thesis
    by (simp add: min_obj_def demo_acquisition_def expected_improvement_cases reshape_col_def
        nan_gpr_def ei_entry_def fl_eq_def fl_sub_def)
qed

lemma nan_results_ok:
  "list_all2 (\<lambda>x0 r. minimize nan_env (min_obj demo_acquisition [[0], [1]] [0, 1] nan_gpr) x0 [(0, 2)] = Inr r)
     demo_starts (map (\<lambda>x0. \<lparr>res_x = x0, res_fun = NaN\<rparr>) demo_starts)"
  by (simp add: demo_starts_def list_all2_map1 list_all2_map2 list_all2_same
      nan_env_def demo_env_def demo_minimize_def clip_def nan_objective)

lemma nan_env_starts:
  "uniform_matrix (random_sample nan_env) [(0, 2)] n_restarts (ncols [[0], [1::real]]) = Inr demo_starts"
  using demo_starts_eq by (simp add: nan_env_def demo_env_def)

lemma flaky_results_ok:
  "list_all2 (\<lambda>x0 r. minimize flaky_env (min_obj demo_acquisition [[0], [1]] [0, 1] (demo_gpr False)) x0 [(0, 2)] = Inr r)
     demo_starts (demo_results [0 := \<lparr>res_x = [0], res_fun = NaN\<rparr>])"
  by (simp add: demo_starts_literal demo_results_def flaky_env_def demo_env_def demo_minimize_value
      ei_entry_finite ei_real_def box_norm_def)

subsection \<open>The claims about the candidate proposer\<close>

text \<open>
  Claim C5. With an empty observation set (and at least one bound, each with its lower
  end not above its upper end) \<open>generate_parameters\<close> returns, coordinate by
  coordinate, \<open>lower + (upper - lower) * u\<close> for the next number \<open>u\<close> of the uniform
  generator, which lies within the bounds. The result does not mention the acquisition
  function, and the record of calls is empty: nothing is fitted and nothing is optimized.
\<close>

theorem cold_start_uniform:
  assumes empty: "concat X_obs = []"
    and bounds: "bounds \<noteq> []" "\<forall>b \<in> set bounds. fst b \<le> snd b"
    and unit: "\<forall>k < length bounds. 0 \<le> random_sample E k \<and> random_sample E k < 1"
  shows "generate_parameters E acquisition X_obs Y_obs bounds
         = (Inr (map (\<lambda>j. fst (bounds ! j) + (snd (bounds ! j) - fst (bounds ! j)) * random_sample E j)
                  [0..<length bounds]), [])
         \<and> in_bounds bounds (map (\<lambda>j. fst (bounds ! j) + (snd (bounds ! j) - fst (bounds ! j)) * random_sample E j)
                  [0..<length bounds])"
proof
  show "generate_parameters E acquisition X_obs Y_obs bounds
         = (Inr (map (\<lambda>j. fst (bounds ! j) + (snd (bounds ! j) - fst (bounds ! j)) * random_sample E j)
                  [0..<length bounds]), [])"
    using empty bounds(1) by (simp add: generate_parameters_def uniform_vector_def uniform_def)
  show "in_bounds bounds (map (\<lambda>j. fst (bounds ! j) + (snd (bounds ! j) - fst (bounds ! j)) * random_sample E j)
                  [0..<length bounds])"
    unfolding in_bounds_def list_all2_conv_all_nth
    using uniform_in_range [of "bounds ! j" "random_sample E" j for j] bounds(2) unit
    by (simp add: uniform_def)
qed

theorem cold_start_uniform_witness:
  "generate_parameters demo_env demo_acquisition [] [] [(- 5, 5), (- 5, 5)] = (Inr [- 5, - (23 / 5)], [])
   \<and> in_bounds [(- 5, 5), (- 5, 5)] [- 5, - (23 / 5)]"
proof -
  have empty: "concat ([] :: real list list) = []"
    by simp
  have bounds: "[(- 5, 5), (- 5, 5 :: real)] \<noteq> []" "\<forall>b \<in> set [(- 5, 5), (- 5, 5 :: real)]. fst b \<le> snd b"
    by simp_all
  have unit: "\<forall>k < length [(- 5, 5), (- 5, 5 :: real)]. 0 \<le> random_sample demo_env k \<and> random_sample demo_env k < 1"
    by (simp add: demo_env_def)
  have "map (\<lambda>j. fst ([(- 5, 5), (- 5, 5 :: real)] ! j)
                  + (snd ([(- 5, 5), (- 5, 5)] ! j) - fst ([(- 5, 5), (- 5, 5)] ! j)) * random_sample demo_env j)
          [0..<length [(- 5, 5), (- 5, 5 :: real)]] = [- 5, - (23 / 5)]"
    by (simp add: demo_env_def upt_rec)
  then show ?thesis
    using cold_start_uniform [OF empty bounds unit, of demo_acquisition "[]"] by simp
qed

text \<open>
  Claim C4. With a non-empty observation set and an optimizer that respects the box, a
  location that \<open>generate_parameters\<close> returns lies within the bounds in every
  dimension.
\<close>

theorem returned_candidate_in_bounds:
  assumes respects: "\<forall>obj x0 r. minimize E obj x0 bounds = Inr r \<longrightarrow> in_bounds bounds (res_x r)"
    and ne: "concat X_obs \<noteq> []"
    and ret: "generate_parameters E acquisition X_obs Y_obs bounds = (Inr x, lg)"
  shows "in_bounds bounds x"
proof -
  note gp = ret [unfolded generate_parameters_nonempty [OF ne]]
  obtain g where fit: "fit E X_obs Y_obs = Inr g"
    using gp by (cases "fit E X_obs Y_obs") simp_all
  obtain starts where starts: "uniform_matrix (random_sample E) bounds n_restarts (ncols X_obs) = Inr starts"
    using gp fit
    by (cases "uniform_matrix (random_sample E) bounds n_restarts (ncols X_obs)") simp_all
  define opt where "opt = (\<lambda>x0. minimize E (min_obj acquisition X_obs Y_obs g) x0 bounds)"
  obtain mv where loop: "restarts opt starts (Fin float_max, None) [Fit X_obs Y_obs] = (Inr (mv, Some x), lg)"
    using gp
    by (auto simp: fit starts opt_def tolist_def split: prod.splits sum.splits option.splits)
  show ?thesis
    using restarts_preserve [OF loop, of "in_bounds bounds"] respects by (simp add: opt_def)
qed

theorem returned_candidate_in_bounds_witness:
  "generate_parameters demo_env demo_acquisition [[0], [1]] [0, 1] [(0, 2)]
     = (Inr [48 / 25], Fit [[0], [1]] [0, 1] # map Minimize demo_starts)
   \<and> in_bounds [(0, 2)] [48 / 25]"
proof -
  have respects: "\<forall>obj x0 r. minimize demo_env obj x0 [(0, 2)] = Inr r \<longrightarrow> in_bounds [(0, 2)] (res_x r)"
    using demo_minimize_in_bounds [of "[(0, 2)]"] by (simp add: demo_env_def)
  have ne: "concat [[0], [1 :: real]] \<noteq> []"
    by simp
  show ?thesis
    using returned_candidate_in_bounds [OF respects ne demo_run] demo_run by simp
qed

text \<open>
  Claim C8. With a non-empty observation set, a fit that succeeds and an optimizer that
  returns on each of the drawn start points, \<open>generate_parameters\<close> fits once and then
  runs exactly 25 optimizations, one per start point, each from the same objective and
  bounds. The location it returns is that of a restart whose objective value is below
  the sentinel and is not exceeded downwards by any restart, and it is the first restart
  with that value. If no restart is below the sentinel, the call fails.
\<close>

theorem best_of_25_restarts:
  assumes ne: "concat X_obs \<noteq> []"
    and fit: "fit E X_obs Y_obs = Inr g"
    and starts: "uniform_matrix (random_sample E) bounds n_restarts (ncols X_obs) = Inr starts"
    and ok: "list_all2 (\<lambda>x0 r. minimize E (min_obj acquisition X_obs Y_obs g) x0 bounds = Inr r) starts rs"
  shows "\<exists>res. generate_parameters E acquisition X_obs Y_obs bounds
                 = (res, Fit X_obs Y_obs # map Minimize starts) \<and>
           length starts = 25 \<and>
           (case res of
              Inl e \<Rightarrow> e = AttributeError \<and> (\<forall>j < 25. \<not> fl_less (res_fun (rs ! j)) (Fin float_max))
            | Inr x \<Rightarrow>
                (\<exists>i < 25. x = res_x (rs ! i) \<and> fl_less (res_fun (rs ! i)) (Fin float_max) \<and>
                   (\<forall>j < 25. \<not> fl_less (res_fun (rs ! j)) (res_fun (rs ! i))) \<and>
                   (\<forall>j < i. res_fun (rs ! j) \<noteq> res_fun (rs ! i))))"
proof -
  have len: "length starts = 25"
    using uniform_matrix_length [OF starts] by (simp add: n_restarts_def)
  then have "length rs = 25"
    using list_all2_lengthD [OF ok] by simp
  then show ?thesis
    using generate_parameters_all_return [OF ne fit starts ok] best_of_restarts [of rs 25] len
    by simp
qed

theorem best_of_25_restarts_witness:
  "generate_parameters demo_env demo_acquisition [[0], [1]] [0, 1] [(0, 2)]
     = (Inr [48 / 25], Fit [[0], [1]] [0, 1] # map Minimize demo_starts)
   \<and> length demo_starts = 25
   \<and> (\<exists>i < 25. [48 / 25] = res_x (demo_results ! i) \<and>
          fl_less (res_fun (demo_results ! i)) (Fin float_max) \<and>
          (\<forall>j < 25. \<not> fl_less (res_fun (demo_results ! j)) (res_fun (demo_results ! i))) \<and>
          (\<forall>j < i. res_fun (demo_results ! j) \<noteq> res_fun (demo_results ! i)))"
proof -
  have ne: "concat [[0], [1 :: real]] \<noteq> []"
    by simp
  have fit: "fit demo_env [[0], [1]] [0, 1] = Inr (demo_gpr False)"
    by (simp add: demo_env_def)
  show ?thesis
    using best_of_25_restarts [OF ne fit demo_env_starts demo_results_ok] demo_run by auto
qed

text \<open>
  Claim C3, amended. When no restart reports an objective value below the sentinel,
  all 25 restarts run and the call then fails with the AttributeError of
  \<^verbatim>\<open>None.tolist()\<close>; no location is returned. There is no dedicated error.
\<close>

theorem all_restarts_fail:
  assumes ne: "concat X_obs \<noteq> []"
    and fit: "fit E X_obs Y_obs = Inr g"
    and starts: "uniform_matrix (random_sample E) bounds n_restarts (ncols X_obs) = Inr starts"
    and ok: "list_all2 (\<lambda>x0 r. minimize E (min_obj acquisition X_obs Y_obs g) x0 bounds = Inr r) starts rs"
    and fail: "\<forall>r \<in> set rs. \<not> fl_less (res_fun r) (Fin float_max)"
  shows "generate_parameters E acquisition X_obs Y_obs bounds
         = (Inl AttributeError, Fit X_obs Y_obs # map Minimize starts)"
  using generate_parameters_all_return [OF ne fit starts ok] fold_update_best_none [OF fail, of None]
  by (simp add: tolist_def)

theorem all_restarts_fail_witness:
  "generate_parameters nan_env demo_acquisition [[0], [1]] [0, 1] [(0, 2)]
   = (Inl AttributeError, Fit [[0], [1]] [0, 1] # map Minimize demo_starts)"
proof -
  have ne: "concat [[0], [1 :: real]] \<noteq> []"
    by simp
  have fit: "fit nan_env [[0], [1]] [0, 1] = Inr nan_gpr"
    by (simp add: nan_env_def)
  have fail: "\<forall>r \<in> set (map (\<lambda>x0. \<lparr>res_x = x0, res_fun = NaN\<rparr>) demo_starts).
                \<not> fl_less (res_fun r) (Fin float_max)"
    by simp
  show ?thesis
    using all_restarts_fail [OF ne fit nan_env_starts nan_results_ok fail] .
qed

text \<open>
  Claim C3 as stated fails: with an optimizer that reports an infinite objective on
  every start, the caller gets the AttributeError of \<^verbatim>\<open>None.tolist()\<close>, not an error
  that says that no candidate was found.
\<close>

theorem all_restarts_fail_counterexample:
  "fst (generate_parameters inf_env demo_acquisition [[0], [1]] [0, 1] [(0, 2)]) = Inl AttributeError"
proof -
  have ne: "concat [[0], [1 :: real]] \<noteq> []"
    by simp
  have fit: "fit inf_env [[0], [1]] [0, 1] = Inr (demo_gpr False)"
    by (simp add: inf_env_def demo_env_def)
  have starts: "uniform_matrix (random_sample inf_env) [(0, 2)] n_restarts (ncols [[0], [1::real]]) = Inr demo_starts"
    using demo_starts_eq by (simp add: inf_env_def demo_env_def)
  have ok: "list_all2 (\<lambda>x0 r. minimize inf_env (min_obj demo_acquisition [[0], [1]] [0, 1] (demo_gpr False)) x0 [(0, 2)] = Inr r)
              demo_starts (map (\<lambda>x0. \<lparr>res_x = x0, res_fun = PInf\<rparr>) demo_starts)"
    by (simp add: list_all2_map2 list_all2_same inf_env_def)
  have "fold update_best (map (\<lambda>x0. \<lparr>res_x = x0, res_fun = PInf\<rparr>) demo_starts) (Fin float_max, None)
        = (Fin float_max, None)"
    by (rule fold_update_best_none) simp
  then show ?thesis
    using generate_parameters_all_return [OF ne fit starts ok] by (simp add: tolist_def)
qed

text \<open>
  Claim C7, amended. When the optimizer returns on every start point, a restart whose
  objective value is NaN or plus infinity does not become the best so far and does not
  stop the others: all 25 restarts run, and if some restart is below the sentinel, the
  location of another restart than the failed one is returned.
\<close>

theorem nonfinite_restart_skipped:
  assumes ne: "concat X_obs \<noteq> []"
    and fit: "fit E X_obs Y_obs = Inr g"
    and starts: "uniform_matrix (random_sample E) bounds n_restarts (ncols X_obs) = Inr starts"
    and ok: "list_all2 (\<lambda>x0 r. minimize E (min_obj acquisition X_obs Y_obs g) x0 bounds = Inr r) starts rs"
    and failed: "k < 25" "res_fun (rs ! k) = NaN \<or> res_fun (rs ! k) = PInf"
    and good: "i < 25" "fl_less (res_fun (rs ! i)) (Fin float_max)"
  shows "\<exists>x j. generate_parameters E acquisition X_obs Y_obs bounds
                 = (Inr x, Fit X_obs Y_obs # map Minimize starts) \<and>
               j < 25 \<and> j \<noteq> k \<and> x = res_x (rs ! j) \<and> fl_less (res_fun (rs ! j)) (Fin float_max)"
proof -
  have "length starts = 25"
    using uniform_matrix_length [OF starts] by (simp add: n_restarts_def)
  then have len: "length rs = 25"
    using list_all2_lengthD [OF ok] by simp
  have gp: "generate_parameters E acquisition X_obs Y_obs bounds
            = (tolist (snd (fold update_best rs (Fin float_max, None))), Fit X_obs Y_obs # map Minimize starts)"
    using generate_parameters_all_return [OF ne fit starts ok] .
  show ?thesis
  proof (cases "tolist (snd (fold update_best rs (Fin float_max, None)))")
    case (Inl e)
    then have "\<not> fl_less (res_fun (rs ! i)) (Fin float_max)"
      using best_of_restarts [OF len] good(1) by simp
    then show ?thesis
      using good(2) by simp
  next
    case (Inr x)
    then obtain j where j: "j < 25" "x = res_x (rs ! j)" "fl_less (res_fun (rs ! j)) (Fin float_max)"
      using best_of_restarts [OF len] by auto
    have "j \<noteq> k"
      using j(3) failed(2) by auto
    then show ?thesis
      using gp Inr j by auto
  qed
qed

theorem nonfinite_restart_skipped_witness:
  "(0::nat) < 25 \<and> res_fun (demo_results [0 := \<lparr>res_x = [0], res_fun = NaN\<rparr>] ! 0) = NaN
   \<and> (24::nat) < 25
   \<and> fl_less (res_fun (demo_results [0 := \<lparr>res_x = [0], res_fun = NaN\<rparr>] ! 24)) (Fin float_max)
   \<and> (\<exists>x j. generate_parameters flaky_env demo_acquisition [[0], [1]] [0, 1] [(0, 2)]
                 = (Inr x, Fit [[0], [1]] [0, 1] # map Minimize demo_starts) \<and>
               j < 25 \<and> j \<noteq> 0 \<and> x = res_x (demo_results [0 := \<lparr>res_x = [0], res_fun = NaN\<rparr>] ! j) \<and>
               fl_less (res_fun (demo_results [0 := \<lparr>res_x = [0], res_fun = NaN\<rparr>] ! j)) (Fin float_max))"
proof -
  have ne: "concat [[0], [1 :: real]] \<noteq> []"
    by simp
  have fit: "fit flaky_env [[0], [1]] [0, 1] = Inr (demo_gpr False)"
    by (simp add: flaky_env_def demo_env_def)
  have starts: "uniform_matrix (random_sample flaky_env) [(0, 2)] n_restarts (ncols [[0], [1::real]]) = Inr demo_starts"
    using demo_starts_eq by (simp add: flaky_env_def demo_env_def)
  have failed: "(0::nat) < 25"
    "res_fun (demo_results [0 := \<lparr>res_x = [0], res_fun = NaN\<rparr>] ! 0) = NaN
     \<or> res_fun (demo_results [0 := \<lparr>res_x = [0], res_fun = NaN\<rparr>] ! 0) = PInf"
    by (simp_all add: demo_results_def)
  have good: "(24::nat) < 25"
    "fl_less (res_fun (demo_results [0 := \<lparr>res_x = [0], res_fun = NaN\<rparr>] ! 24)) (Fin float_max)"
    using float_max_pos by (simp_all add: demo_results_def)
  show ?thesis
    using nonfinite_restart_skipped [OF ne fit starts flaky_results_ok failed good] failed good
    by (simp add: demo_results_def)
qed

text \<open>
  Claim C7 as stated fails: an optimizer that raises on one restart ends the call with
  that exception, although other restarts succeeded (the one from 46/25 did).
\<close>

theorem optimizer_exception_counterexample:
  "minimize raising_env (min_obj demo_acquisition [[0], [1]] [0, 1] (demo_gpr False)) [46 / 25] [(0, 2)]
     = Inr \<lparr>res_x = [46 / 25], res_fun = Fin (- (27253921 / 19320000))\<rparr>
   \<and> generate_parameters raising_env demo_acquisition [[0], [1]] [0, 1] [(0, 2)]
       = (Inl OptimizerError, Fit [[0], [1]] [0, 1] # map Minimize demo_starts)"
proof
  show "minimize raising_env (min_obj demo_acquisition [[0], [1]] [0, 1] (demo_gpr False)) [46 / 25] [(0, 2)]
     = Inr \<lparr>res_x = [46 / 25], res_fun = Fin (- (27253921 / 19320000))\<rparr>"
    by (simp add: raising_env_def demo_minimize_value ei_entry_finite ei_real_def box_norm_def)
next
  have ne: "concat [[0], [1 :: real]] \<noteq> []"
    by simp
  have starts: "uniform_matrix (random_sample raising_env) [(0, 2)] n_restarts (ncols [[0], [1::real]])
                = Inr (butlast demo_starts @ [48 / 25] # [])"
    using demo_starts_eq by (simp add: raising_env_def demo_env_def demo_starts_literal)
  have ok: "list_all2 (\<lambda>x0 r. minimize raising_env (min_obj demo_acquisition [[0], [1]] [0, 1] (demo_gpr False)) x0 [(0, 2)] = Inr r)
              (butlast demo_starts) (butlast demo_results)"
    by (simp add: demo_starts_literal demo_results_def raising_env_def demo_minimize_value
        ei_entry_finite ei_real_def box_norm_def)
  have raise: "minimize raising_env (min_obj demo_acquisition [[0], [1]] [0, 1] (demo_gpr False)) [48 / 25] [(0, 2)]
               = Inl OptimizerError"
    by (simp add: raising_env_def)
  have "restarts (\<lambda>x0. minimize raising_env (min_obj demo_acquisition [[0], [1]] [0, 1] (demo_gpr False)) x0 [(0, 2)])
          (butlast demo_starts @ [48 / 25] # []) (Fin float_max, None) [Fit [[0], [1]] [0, 1]]
        = (Inl OptimizerError, [Fit [[0], [1]] [0, 1]] @ map Minimize (butlast demo_starts) @ [Minimize [48 / 25]])"
    using restarts_raise [OF ok raise] .
  moreover have "map Minimize (butlast demo_starts) @ [Minimize [48 / 25]] = map Minimize demo_starts"
    by (simp add: demo_starts_literal)
  moreover have fit: "fit raising_env [[0], [1]] [0, 1] = Inr (demo_gpr False)"
    by (simp add: raising_env_def demo_env_def)
  ultimately show "generate_parameters raising_env demo_acquisition [[0], [1]] [0, 1] [(0, 2)]
       = (Inl OptimizerError, Fit [[0], [1]] [0, 1] # map Minimize demo_starts)"
    by (simp add: generate_parameters_nonempty [OF ne] starts)
qed

end
